theory Spec2Isabelle
  imports Main "HOL-Library.Sublist"
begin

section \<open>Typed JSON loader of node-fs: \<open>readJson\<close>\<close>

text \<open>
  The development embeds \<^verbatim>\<open>packages/node-fs/src/read-json.ts\<close>. \<open>readJson\<close> composes
  three collaborators that it imports: the logger of \<^verbatim>\<open>./common\<close>, \<open>parseJson\<close> of
  \<^verbatim>\<open>./json\<close>, and \<open>readFile\<close>/\<open>readFileSync\<close> of \<^verbatim>\<open>./read-file\<close>. They are parameters
  of the model (the record \<open>env\<close>), and every call that \<open>readJson\<close> makes to one of them
  is recorded, with its arguments, in a call trace returned beside the result.
\<close>

subsection \<open>Values of the type helper\<close>

text \<open>
  \<^verbatim>\<open>interface Dictionary<T> { [key: string | number]: T }\<close> and
  \<^verbatim>\<open>type JSONValue = string | number | boolean | null | undefined | JSONArray | JSONObject\<close>.
  Numbers are kept integral here; no property below inspects a number.
\<close>

type_synonym 'a Dictionary = "(string \<times> 'a) list"

datatype JSONValue =
    JSONString string
  | JSONNumber int
  | JSONBoolean bool
  | JSONNull
  | JSONUndefined
  | JSONArray "JSONValue list"
  | JSONObject "JSONValue Dictionary"

text \<open>
  A promise is modelled by the state it settles in, and
  \<^verbatim>\<open>type MaybePromise<T> = T | Promise<T>\<close> by a tagged union: the value itself, or a
  promise of it.
\<close>

datatype ('e, 'a) promise = Fulfilled 'a | Rejected 'e

datatype ('e, 'a) MaybePromise = Value 'a | Promise "('e, 'a) promise"

text \<open>
  A call either throws at the call site (\<open>Inl\<close>) or returns (\<open>Inr\<close>).
\<close>

type_synonym ('e, 'a) completion = "'e + 'a"

subsection \<open>Run-time arguments\<close>

text \<open>
  The second argument is declared \<^verbatim>\<open>boolean\<close>, but the types are erased at run time and
  the implementation compares it with \<^verbatim>\<open>=== true\<close>. The model keeps what the comparison
  can tell apart: \<^verbatim>\<open>undefined\<close> (also an omitted argument), a boolean, or any other
  value.
\<close>

datatype 'x jsvalue = Undefined | Boolean bool | Other 'x

text \<open>A parameter with a default, \<^verbatim>\<open>sync = false\<close>: the default replaces \<^verbatim>\<open>undefined\<close> only.\<close>

definition default_param :: "'x jsvalue \<Rightarrow> 'x jsvalue \<Rightarrow> 'x jsvalue" where
  "default_param arg dflt = (case arg of Undefined \<Rightarrow> dflt | _ \<Rightarrow> arg)"

text \<open>
  \<^verbatim>\<open>String.prototype.slice(start)\<close> with one argument: a negative \<open>start\<close> counts from
  the end and is clamped at the beginning, a positive one is clamped at the end. A
  \<open>char\<close> stands for one code unit of the string.
\<close>

definition slice :: "int \<Rightarrow> string \<Rightarrow> string" where
  "slice start s =
     (let len = int (length s);
          from = (if start < 0 then max (len + start) 0 else min start len)
      in drop (nat from) s)"

subsection \<open>Collaborators and the call trace\<close>

text \<open>The argument snapshot \<^verbatim>\<open>{path: ..., sync}\<close> handed to the logger.\<close>

record 'x log_args =
  log_path :: string
  log_sync :: "'x jsvalue"

datatype 'x event =
    LogMethodArgs string "'x log_args"
  | ReadFileSync string
  | ReadFile string
  | ParseJson string

text \<open>
  Modelled from the spec: the modules \<^verbatim>\<open>./common\<close>, \<^verbatim>\<open>./json\<close> and \<^verbatim>\<open>./read-file\<close>,
  which \<^verbatim>\<open>read-json.ts\<close> imports; their interfaces are those of section 6 of the
  specification.
  \<^item> \<open>logMethodArgs\<close>: the optional operation of the logger; it is fire-and-forget,
    never throws and never affects control flow or return value. \<open>None\<close> is the unset
    hook.
  \<^item> \<open>readFileSync\<close>: immediate; it returns the text or throws on failure.
  \<^item> \<open>readFile\<close>: a deferred text that resolves to the text or fails.
  \<^item> \<open>parseJson\<close>: synchronous; it returns the decoded value or fails with a parse
    error on syntactically invalid input.
  The error type \<open>'e\<close> and the type \<open>'v\<close> of decoded values (the caller's \<^verbatim>\<open>T\<close>, not
  checked at run time) are left open.
\<close>

record ('e, 'v, 'x) env =
  logMethodArgs :: "(string \<Rightarrow> 'x log_args \<Rightarrow> unit) option"
  readFileSync :: "string \<Rightarrow> ('e, string) completion"
  readFile :: "string \<Rightarrow> ('e, string) promise"
  parseJson :: "string \<Rightarrow> ('e, 'v) completion"

text \<open>
  The optional call \<^verbatim>\<open>f?.(m, a)\<close>: nothing happens when \<open>f\<close> is unset, otherwise \<open>f\<close> is
  called once with the two arguments.
\<close>

definition optional_call ::
  "(string \<Rightarrow> 'x log_args \<Rightarrow> unit) option \<Rightarrow> string \<Rightarrow> 'x log_args \<Rightarrow> 'x event list" where
  "optional_call f m a =
     (case f of
        None \<Rightarrow> []
      | Some h \<Rightarrow> (let _ = h m a in [LogMethodArgs m a]))"

text \<open>
  \<^verbatim>\<open>promise.then(cb)\<close>: a rejected promise passes its reason on and \<open>cb\<close> is not called;
  a fulfilled one calls \<open>cb\<close> on the value, and the new promise is fulfilled with what
  \<open>cb\<close> returns or rejected with what it throws.
\<close>

fun then_promise ::
  "('e, 'a) promise \<Rightarrow> ('a \<Rightarrow> ('e, 'b) completion \<times> 't list) \<Rightarrow> ('e, 'b) promise \<times> 't list" where
  "then_promise (Rejected e) cb = (Rejected e, [])"
| "then_promise (Fulfilled a) cb =
     (case cb a of
        (Inl e, t) \<Rightarrow> (Rejected e, t)
      | (Inr b, t) \<Rightarrow> (Fulfilled b, t))"

text \<open>A call of \<open>parseJson\<close>, recorded.\<close>

definition call_parseJson ::
  "('e, 'v, 'x) env \<Rightarrow> string \<Rightarrow> ('e, 'v) completion \<times> 'x event list" where
  "call_parseJson env content = (parseJson env content, [ParseJson content])"

subsection \<open>\<open>readJson\<close>\<close>

text \<open>
  \<^verbatim>\<open>
  export function readJson<T extends Dictionary>(path: string, sync = false): MaybePromise<T> {
    logger.logMethodArgs?.('readJson', {path: path.slice(-32), sync});
    if (sync === true) {
      return parseJson<T>(readFileSync(path));
    }
    else {
      return readFile(path).then((content) => parseJson<T>(content));
    }
  }
  \<close>
  The two branches, each with the calls it makes in the order it makes them.
\<close>

definition readJson_sync ::
  "('e, 'v, 'x) env \<Rightarrow> string \<Rightarrow> ('e, ('e, 'v) MaybePromise) completion \<times> 'x event list" where
  "readJson_sync env path =
     (case readFileSync env path of
        Inl e \<Rightarrow> (Inl e, [ReadFileSync path])
      | Inr content \<Rightarrow>
          (case call_parseJson env content of
             (Inl e, t) \<Rightarrow> (Inl e, ReadFileSync path # t)
           | (Inr v, t) \<Rightarrow> (Inr (Value v), ReadFileSync path # t)))"

definition readJson_async ::
  "('e, 'v, 'x) env \<Rightarrow> string \<Rightarrow> ('e, ('e, 'v) MaybePromise) completion \<times> 'x event list" where
  "readJson_async env path =
     (case then_promise (readFile env path) (\<lambda>content. call_parseJson env content) of
        (p, t) \<Rightarrow> (Inr (Promise p), ReadFile path # t))"

definition readJson ::
  "('e, 'v, 'x) env \<Rightarrow> string \<Rightarrow> 'x jsvalue \<Rightarrow>
     ('e, ('e, 'v) MaybePromise) completion \<times> 'x event list" where
  "readJson env path sync_arg =
     (let sync = default_param sync_arg (Boolean False);
          logged = optional_call (logMethodArgs env) ''readJson''
                     \<lparr>log_path = slice (- 32) path, log_sync = sync\<rparr>;
          (result, made) = (if sync = Boolean True then readJson_sync env path
                            else readJson_async env path)
      in (result, logged @ made))"

text \<open>What the caller gets, and the calls that were made.\<close>

definition outcome ::
  "('e, ('e, 'v) MaybePromise) completion \<times> 'x event list \<Rightarrow> ('e, ('e, 'v) MaybePromise) completion" where
  "outcome r = fst r"

definition calls ::
  "('e, ('e, 'v) MaybePromise) completion \<times> 'x event list \<Rightarrow> 'x event list" where
  "calls r = snd r"

text \<open>
  \<^verbatim>\<open>await\<close> on what a call delivered: a thrown error stays thrown, a value is itself, a
  promise gives its value or throws its reason.
\<close>

fun await :: "('e, ('e, 'v) MaybePromise) completion \<Rightarrow> ('e, 'v) completion" where
  "await (Inl e) = Inl e"
| "await (Inr (Value v)) = Inr v"
| "await (Inr (Promise (Fulfilled v))) = Inr v"
| "await (Inr (Promise (Rejected e))) = Inl e"

fun is_log :: "'x event \<Rightarrow> bool" where
  "is_log (LogMethodArgs m a) = True"
| "is_log _ = False"

fun is_read :: "'x event \<Rightarrow> bool" where
  "is_read (ReadFileSync p) = True"
| "is_read (ReadFile p) = True"
| "is_read _ = False"

fun is_parse :: "'x event \<Rightarrow> bool" where
  "is_parse (ParseJson c) = True"
| "is_parse _ = False"


text \<open>
  The two read primitives look at the same file: the deferred read settles the way the
  blocking read completes.
\<close>

definition reads_agree :: "('e, 'v, 'x) env \<Rightarrow> string \<Rightarrow> bool" where
  "reads_agree env path =
     (case readFileSync env path of
        Inl e \<Rightarrow> readFile env path = Rejected e
      | Inr content \<Rightarrow> readFile env path = Fulfilled content)"

subsection \<open>The scenarios of the specification as an environment\<close>

text \<open>
  The two failure kinds of section 7 of the specification, and a storage holding
  \<^verbatim>\<open>config.json\<close> with an object of one key \<open>a\<close> bound to 1 (\<open>config_text\<close>) and
  \<^verbatim>\<open>bad.json\<close> with the text \<^verbatim>\<open>{a:}\<close>;
  \<^verbatim>\<open>missing.json\<close> does not exist. \<open>example_parse\<close> stands for the parser on these two
  texts only.
\<close>

datatype error_kind = ReadFailure | ParseFailure

definition config_text :: string where
  "config_text = ''{'' @ CHR 0x22 # ''a'' @ CHR 0x22 # '':1}''"

definition example_files :: "string \<rightharpoonup> string" where
  "example_files = [''config.json'' \<mapsto> config_text, ''bad.json'' \<mapsto> ''{a:}'']"

definition example_parse :: "string \<Rightarrow> (error_kind, JSONValue Dictionary) completion" where
  "example_parse content =
     (if content = config_text then Inr [(''a'', JSONNumber 1)] else Inl ParseFailure)"

definition node_env ::
  "(string \<rightharpoonup> string) \<Rightarrow> (string \<Rightarrow> string log_args \<Rightarrow> unit) option \<Rightarrow>
     (error_kind, JSONValue Dictionary, string) env" where
  "node_env files hook =
     \<lparr>logMethodArgs = hook,
      readFileSync = (\<lambda>p. case files p of None \<Rightarrow> Inl ReadFailure | Some c \<Rightarrow> Inr c),
      readFile = (\<lambda>p. case files p of None \<Rightarrow> Rejected ReadFailure | Some c \<Rightarrow> Fulfilled c),
      parseJson = example_parse\<rparr>"

definition example_env :: "(error_kind, JSONValue Dictionary, string) env" where
  "example_env = node_env example_files (Some (\<lambda>m a. ()))"

text \<open>The same storage later: \<^verbatim>\<open>bad.json\<close> was removed and the logger has no hook.\<close>

definition later_env :: "(error_kind, JSONValue Dictionary, string) env" where
  "later_env = node_env [''config.json'' \<mapsto> config_text] None"

definition long_path :: string where
  "long_path = ''/a/very/long/path/to/some/directory/with/config.json''"

text \<open>
  A storage in which the file at \<open>long_path\<close> holds \<open>config_text\<close>, while a file named by
  the last 32 characters of \<open>long_path\<close> holds the text \<^verbatim>\<open>{a:}\<close>.
\<close>

definition long_env :: "(error_kind, JSONValue Dictionary, string) env" where
  "long_env =
     node_env [long_path \<mapsto> config_text, slice (- 32) long_path \<mapsto> ''{a:}'']
       (Some (\<lambda>m a. ()))"

section \<open>Properties\<close>

lemmas readJson_defs = readJson_def readJson_sync_def readJson_async_def call_parseJson_def
  default_param_def optional_call_def outcome_def calls_def Let_def

lemmas example_defs = example_env_def node_env_def example_files_def example_parse_def
  config_text_def

lemma slice_suffix: "suffix (slice (- 32) p) p"
  by (simp add: slice_def Let_def suffix_drop)

lemma slice_length: "length (slice (- 32) p) \<le> 32"
  by (simp add: slice_def Let_def)

text \<open>
  C1. When the read of \<open>p\<close> succeeds with a text \<open>j\<close> that \<open>parseJson\<close> decodes to \<open>v\<close>,
  \<open>readJson p true\<close> returns exactly \<open>v\<close>, and \<open>readJson p\<close> as well as
  \<open>readJson p false\<close> return a promise that is fulfilled with the same \<open>v\<close>.
\<close>

theorem readJson_valid:
  assumes "parseJson env j = Inr v"
  shows "(readFileSync env p = Inr j \<longrightarrow>
            outcome (readJson env p (Boolean True)) = Inr (Value v)) \<and>
         (readFile env p = Fulfilled j \<longrightarrow>
            outcome (readJson env p Undefined) = Inr (Promise (Fulfilled v)) \<and>
            outcome (readJson env p (Boolean False)) = Inr (Promise (Fulfilled v)))"
  using assms by (simp add: readJson_defs)

theorem readJson_valid_witness:
  "parseJson example_env config_text = Inr [(''a'', JSONNumber 1)] \<and>
   readFileSync example_env ''config.json'' = Inr config_text \<and>
   readFile example_env ''config.json'' = Fulfilled config_text \<and>
   outcome (readJson example_env ''config.json'' (Boolean True)) = Inr (Value [(''a'', JSONNumber 1)]) \<and>
   outcome (readJson example_env ''config.json'' Undefined) = Inr (Promise (Fulfilled [(''a'', JSONNumber 1)])) \<and>
   outcome (readJson example_env ''config.json'' (Boolean False)) = Inr (Promise (Fulfilled [(''a'', JSONNumber 1)]))"
proof -
  have parsed: "parseJson example_env config_text = Inr [(''a'', JSONNumber 1)]"
    by (simp add: example_defs)
  have sync_read: "readFileSync example_env ''config.json'' = Inr config_text"
    by (simp add: example_defs)
  have async_read: "readFile example_env ''config.json'' = Fulfilled config_text"
    by (simp add: example_defs)
  from readJson_valid [OF parsed, of "''config.json''"] parsed sync_read async_read
  show ?thesis by simp
qed

text \<open>
  C2. Mode equivalence. When both read primitives see the same file, awaiting the
  non-blocking call (second argument omitted or \<open>false\<close>) gives what awaiting the
  blocking call gives: the same value, or the same error. They differ in the delivery
  only: the non-blocking call always hands back a promise, the blocking call never does.
\<close>

theorem mode_equivalence:
  assumes "reads_agree env p"
  shows "await (outcome (readJson env p Undefined)) = await (outcome (readJson env p (Boolean True))) \<and>
         await (outcome (readJson env p (Boolean False))) = await (outcome (readJson env p (Boolean True))) \<and>
         (\<exists>pr. outcome (readJson env p Undefined) = Inr (Promise pr)) \<and>
         (\<exists>pr. outcome (readJson env p (Boolean False)) = Inr (Promise pr)) \<and>
         (\<forall>pr. outcome (readJson env p (Boolean True)) \<noteq> Inr (Promise pr))"
  using assms
  by (cases "readFile env p"; cases "readFileSync env p";
      auto simp: readJson_defs reads_agree_def split: sum.splits)

theorem mode_equivalence_witness:
  "reads_agree example_env ''bad.json'' \<and>
   await (outcome (readJson example_env ''bad.json'' (Boolean True))) = Inl ParseFailure \<and>
   await (outcome (readJson example_env ''bad.json'' Undefined)) = Inl ParseFailure \<and>
   await (outcome (readJson example_env ''bad.json'' (Boolean False))) = Inl ParseFailure"
proof -
  have agree: "reads_agree example_env ''bad.json''"
    by (simp add: reads_agree_def example_defs)
  have blocking: "await (outcome (readJson example_env ''bad.json'' (Boolean True))) = Inl ParseFailure"
    by (simp add: readJson_defs example_defs)
  from mode_equivalence [OF agree] agree blocking show ?thesis by simp
qed


text \<open>
  C3. When the read of \<open>p\<close> fails with \<open>e\<close>, the blocking call throws exactly \<open>e\<close> and the
  non-blocking call returns a promise rejected with exactly \<open>e\<close>. \<open>parseJson\<close> is not
  called at all, so no parse failure can come out: the outcome is the same whatever
  parser \<open>parse'\<close> is installed.
\<close>

theorem read_failure_propagates:
  "(readFileSync env p = Inl e \<longrightarrow>
      outcome (readJson env p (Boolean True)) = Inl e \<and>
      \<not> list_ex is_parse (calls (readJson env p (Boolean True))) \<and>
      outcome (readJson (env\<lparr>parseJson := parse'\<rparr>) p (Boolean True)) = Inl e) \<and>
   (readFile env p = Rejected e \<longrightarrow>
      outcome (readJson env p Undefined) = Inr (Promise (Rejected e)) \<and>
      \<not> list_ex is_parse (calls (readJson env p Undefined)) \<and>
      outcome (readJson (env\<lparr>parseJson := parse'\<rparr>) p Undefined) = Inr (Promise (Rejected e)))"
  by (auto simp: readJson_defs split: option.splits)

theorem read_failure_propagates_witness:
  "readFileSync example_env ''missing.json'' = Inl ReadFailure \<and>
   readFile example_env ''missing.json'' = Rejected ReadFailure \<and>
   outcome (readJson example_env ''missing.json'' (Boolean True)) = Inl ReadFailure \<and>
   outcome (readJson example_env ''missing.json'' Undefined) = Inr (Promise (Rejected ReadFailure)) \<and>
   \<not> list_ex is_parse (calls (readJson example_env ''missing.json'' (Boolean True))) \<and>
   \<not> list_ex is_parse (calls (readJson example_env ''missing.json'' Undefined))"
proof -
  have sync_read: "readFileSync example_env ''missing.json'' = Inl ReadFailure"
    by (simp add: example_defs)
  have async_read: "readFile example_env ''missing.json'' = Rejected ReadFailure"
    by (simp add: example_defs)
  from read_failure_propagates [of example_env "''missing.json''" ReadFailure example_parse]
    sync_read async_read
  show ?thesis by simp
qed

text \<open>
  C4. When the text read from \<open>p\<close> is one that \<open>parseJson\<close> rejects with \<open>e\<close>, the blocking
  call throws \<open>e\<close> at the call site and the non-blocking call returns a promise rejected
  with \<open>e\<close>. Awaiting either gives the error \<open>e\<close>, never a value, so no default takes
  the place of the failure.
\<close>

theorem parse_failure_propagates:
  assumes "parseJson env c = Inl e"
  shows "(readFileSync env p = Inr c \<longrightarrow>
            outcome (readJson env p (Boolean True)) = Inl e \<and>
            await (outcome (readJson env p (Boolean True))) = Inl e) \<and>
         (readFile env p = Fulfilled c \<longrightarrow>
            outcome (readJson env p Undefined) = Inr (Promise (Rejected e)) \<and>
            outcome (readJson env p (Boolean False)) = Inr (Promise (Rejected e)) \<and>
            await (outcome (readJson env p Undefined)) = Inl e \<and>
            await (outcome (readJson env p (Boolean False))) = Inl e)"
  using assms by (simp add: readJson_defs)

theorem parse_failure_propagates_witness:
  "parseJson example_env ''{a:}'' = Inl ParseFailure \<and>
   readFileSync example_env ''bad.json'' = Inr ''{a:}'' \<and>
   readFile example_env ''bad.json'' = Fulfilled ''{a:}'' \<and>
   outcome (readJson example_env ''bad.json'' (Boolean True)) = Inl ParseFailure \<and>
   outcome (readJson example_env ''bad.json'' Undefined) = Inr (Promise (Rejected ParseFailure))"
proof -
  have parsed: "parseJson example_env ''{a:}'' = Inl ParseFailure"
    by (simp add: example_defs)
  have sync_read: "readFileSync example_env ''bad.json'' = Inr ''{a:}''"
    by (simp add: example_defs)
  have async_read: "readFile example_env ''bad.json'' = Fulfilled ''{a:}''"
    by (simp add: example_defs)
  from parse_failure_propagates [OF parsed, of "''bad.json''"] parsed sync_read async_read
  show ?thesis by simp
qed

text \<open>
  C5. A call of \<open>readJson\<close> calls the logging hook at most once; that call comes before
  every other call, the read included; its method name is \<open>readJson\<close>, its path is a
  suffix of the original path of at most 32 characters and its flag is the mode after
  the default was applied. Whatever hook \<open>h\<close> is installed instead (also none), the
  call returns or resolves to the same outcome, so the logging step adds no failure and
  changes no value.
\<close>

theorem trace_behaviour:
  "length (filter is_log (calls (readJson env p s))) \<le> 1 \<and>
   calls (readJson env p s) =
     filter is_log (calls (readJson env p s)) @
     filter (\<lambda>e. \<not> is_log e) (calls (readJson env p s)) \<and>
   (\<forall>m a. LogMethodArgs m a \<in> set (calls (readJson env p s)) \<longrightarrow>
      m = ''readJson'' \<and> suffix (log_path a) p \<and> length (log_path a) \<le> 32 \<and>
      log_sync a = default_param s (Boolean False)) \<and>
   outcome (readJson (env\<lparr>logMethodArgs := h\<rparr>) p s) = outcome (readJson env p s)"
  by (cases "readFile env p"; cases "readFileSync env p";
      auto simp: readJson_defs slice_suffix slice_length
           split: sum.splits option.splits jsvalue.splits)

theorem trace_behaviour_witness:
  "LogMethodArgs ''readJson''
     \<lparr>log_path = ''/some/directory/with/config.json'', log_sync = Boolean False\<rparr>
     \<in> set (calls (readJson example_env long_path Undefined)) \<and>
   suffix ''/some/directory/with/config.json'' long_path \<and>
   length ''/some/directory/with/config.json'' \<le> 32 \<and>
   length (filter is_log (calls (readJson example_env long_path Undefined))) \<le> 1 \<and>
   outcome (readJson (example_env\<lparr>logMethodArgs := None\<rparr>) long_path Undefined) =
     outcome (readJson example_env long_path Undefined)"
proof -
  let ?a = "\<lparr>log_path = ''/some/directory/with/config.json'', log_sync = Boolean False\<rparr>"
  let ?r = "readJson example_env long_path Undefined"
  have logged: "LogMethodArgs ''readJson'' ?a \<in> set (calls ?r)"
    by (simp add: readJson_defs example_defs long_path_def slice_def)
  note t = trace_behaviour [of example_env long_path Undefined None]
  from t have once: "length (filter is_log (calls ?r)) \<le> 1"
    by (rule conjunct1)
  from t have same: "outcome (readJson (example_env\<lparr>logMethodArgs := None\<rparr>) long_path Undefined) =
      outcome ?r"
    by (elim conjE)
  from t have "\<forall>m a. LogMethodArgs m a \<in> set (calls ?r) \<longrightarrow>
      m = ''readJson'' \<and> suffix (log_path a) long_path \<and> length (log_path a) \<le> 32 \<and>
      log_sync a = default_param Undefined (Boolean False)"
    by (elim conjE)
  then have all: "\<And>m a. LogMethodArgs m a \<in> set (calls ?r) \<Longrightarrow>
      suffix (log_path a) long_path \<and> length (log_path a) \<le> 32"
    by simp
  from all [OF logged] have cut: "suffix ''/some/directory/with/config.json'' long_path \<and>
      length ''/some/directory/with/config.json'' \<le> 32"
    by simp
  from logged cut once same show ?thesis
    by (intro conjI) (elim conjE, assumption)+
qed

text \<open>
  C6. With the mode omitted \<open>readJson\<close> behaves exactly as with \<open>false\<close>: it returns a
  promise, not the value itself. A call returns a value directly, or reads with the
  blocking primitive, only if the caller passed \<open>true\<close>.
\<close>

theorem default_mode_nonblocking:
  "readJson env p Undefined = readJson env p (Boolean False) \<and>
   (\<exists>pr. outcome (readJson env p Undefined) = Inr (Promise pr)) \<and>
   (\<forall>v. outcome (readJson env p Undefined) \<noteq> Inr (Value v)) \<and>
   ((\<exists>v. outcome (readJson env p s) = Inr (Value v)) \<longrightarrow> s = Boolean True) \<and>
   (ReadFileSync p \<in> set (calls (readJson env p s)) \<longrightarrow> s = Boolean True)"
  by (cases "readFile env p"; cases "readFileSync env p";
      auto simp: readJson_defs split: sum.splits option.splits jsvalue.splits)

theorem default_mode_nonblocking_witness:
  "outcome (readJson example_env ''config.json'' (Boolean True)) = Inr (Value [(''a'', JSONNumber 1)]) \<and>
   ReadFileSync ''config.json'' \<in> set (calls (readJson example_env ''config.json'' (Boolean True))) \<and>
   readJson example_env ''config.json'' Undefined = readJson example_env ''config.json'' (Boolean False) \<and>
   outcome (readJson example_env ''config.json'' Undefined) = Inr (Promise (Fulfilled [(''a'', JSONNumber 1)]))"
proof -
  have blocking: "outcome (readJson example_env ''config.json'' (Boolean True)) =
      Inr (Value [(''a'', JSONNumber 1)])"
    by (simp add: readJson_defs example_defs)
  have read: "ReadFileSync ''config.json'' \<in>
      set (calls (readJson example_env ''config.json'' (Boolean True)))"
    by (simp add: readJson_defs example_defs)
  have deferred: "outcome (readJson example_env ''config.json'' Undefined) =
      Inr (Promise (Fulfilled [(''a'', JSONNumber 1)]))"
    by (simp add: readJson_defs example_defs)
  from default_mode_nonblocking [of example_env "''config.json''" "Boolean True"]
    blocking read deferred
  show ?thesis by simp
qed

text \<open>
  C7. With the logging hook unset, every call of \<open>readJson\<close> has the outcome it has with
  a hook present, and makes the same calls apart from the one to the hook.
\<close>

theorem hook_unset_tolerated:
  "outcome (readJson (env\<lparr>logMethodArgs := None\<rparr>) p s) = outcome (readJson env p s) \<and>
   calls (readJson (env\<lparr>logMethodArgs := None\<rparr>) p s) =
     filter (\<lambda>e. \<not> is_log e) (calls (readJson env p s))"
  by (cases "readFile env p"; cases "readFileSync env p";
      auto simp: readJson_defs split: sum.splits option.splits jsvalue.splits)

theorem hook_unset_tolerated_witness:
  "outcome (readJson (example_env\<lparr>logMethodArgs := None\<rparr>) ''config.json'' (Boolean True)) =
     Inr (Value [(''a'', JSONNumber 1)]) \<and>
   outcome (readJson example_env ''config.json'' (Boolean True)) =
     Inr (Value [(''a'', JSONNumber 1)]) \<and>
   calls (readJson (example_env\<lparr>logMethodArgs := None\<rparr>) ''config.json'' (Boolean True)) =
     [ReadFileSync ''config.json'', ParseJson config_text]"
proof -
  have with_hook: "outcome (readJson example_env ''config.json'' (Boolean True)) =
      Inr (Value [(''a'', JSONNumber 1)])"
    by (simp add: readJson_defs example_defs)
  have trace: "filter (\<lambda>e. \<not> is_log e) (calls (readJson example_env ''config.json'' (Boolean True))) =
      [ReadFileSync ''config.json'', ParseJson config_text]"
    by (simp add: readJson_defs example_defs)
  from hook_unset_tolerated [of example_env "''config.json''" "Boolean True"] with_hook trace
  show ?thesis by simp
qed

text \<open>
  C8. The path cut to its last 32 characters goes to the logging hook only. The read
  primitives are applied to the caller's path \<open>p\<close> itself: the outcome of \<open>readJson\<close> is
  the parse of what \<open>readFileSync\<close> returns at \<open>p\<close> in blocking mode, and a promise settled
  by the parse of what \<open>readFile\<close> gives at \<open>p\<close> otherwise; it stays the same when the
  read primitives are changed at any other path \<open>q\<close>, the cut path included. The call
  trace holds exactly one read, at \<open>p\<close>, and the hook's argument is \<open>slice (- 32) p\<close>.
\<close>

theorem read_gets_original_path:
  "outcome (readJson env p s) =
     (if s = Boolean True then
        (case readFileSync env p of
           Inl e \<Rightarrow> Inl e
         | Inr content \<Rightarrow>
             (case parseJson env content of
                Inl e \<Rightarrow> Inl e
              | Inr v \<Rightarrow> Inr (Value v)))
      else
        Inr (Promise
          (case readFile env p of
             Rejected e \<Rightarrow> Rejected e
           | Fulfilled content \<Rightarrow>
               (case parseJson env content of
                  Inl e \<Rightarrow> Rejected e
                | Inr v \<Rightarrow> Fulfilled v)))) \<and>
   (q \<noteq> p \<longrightarrow>
      outcome (readJson (env\<lparr>readFileSync := (readFileSync env)(q := r),
                             readFile := (readFile env)(q := r')\<rparr>) p s) =
      outcome (readJson env p s)) \<and>
   filter is_read (calls (readJson env p s)) =
     [if s = Boolean True then ReadFileSync p else ReadFile p] \<and>
   filter is_log (calls (readJson env p s)) =
     optional_call (logMethodArgs env) ''readJson''
       \<lparr>log_path = slice (- 32) p, log_sync = default_param s (Boolean False)\<rparr>"
proof (intro conjI)
  show "outcome (readJson env p s) =
     (if s = Boolean True then
        (case readFileSync env p of
           Inl e \<Rightarrow> Inl e
         | Inr content \<Rightarrow>
             (case parseJson env content of
                Inl e \<Rightarrow> Inl e
              | Inr v \<Rightarrow> Inr (Value v)))
      else
        Inr (Promise
          (case readFile env p of
             Rejected e \<Rightarrow> Rejected e
           | Fulfilled content \<Rightarrow>
               (case parseJson env content of
                  Inl e \<Rightarrow> Rejected e
                | Inr v \<Rightarrow> Fulfilled v))))"
    by (cases "readFile env p"; cases "readFileSync env p";
        simp add: readJson_defs split: sum.splits jsvalue.splits)
next
  show "q \<noteq> p \<longrightarrow>
      outcome (readJson (env\<lparr>readFileSync := (readFileSync env)(q := r),
                             readFile := (readFile env)(q := r')\<rparr>) p s) =
      outcome (readJson env p s)"
    by (cases "readFile env p"; cases "readFileSync env p";
        simp add: readJson_defs split: sum.splits jsvalue.splits)
next
  show "filter is_read (calls (readJson env p s)) =
     [if s = Boolean True then ReadFileSync p else ReadFile p]"
    by (cases "readFile env p"; cases "readFileSync env p";
        auto simp: readJson_defs split: sum.splits option.splits jsvalue.splits)
next
  show "filter is_log (calls (readJson env p s)) =
     optional_call (logMethodArgs env) ''readJson''
       \<lparr>log_path = slice (- 32) p, log_sync = default_param s (Boolean False)\<rparr>"
    by (cases "readFile env p"; cases "readFileSync env p";
        auto simp: readJson_defs split: sum.splits option.splits jsvalue.splits)
qed

theorem read_gets_original_path_witness:
  "slice (- 32) long_path = ''/some/directory/with/config.json'' \<and>
   slice (- 32) long_path \<noteq> long_path \<and>
   readFileSync long_env long_path = Inr config_text \<and>
   readFileSync long_env (slice (- 32) long_path) = Inr ''{a:}'' \<and>
   readFile long_env long_path = Fulfilled config_text \<and>
   readFile long_env (slice (- 32) long_path) = Fulfilled ''{a:}'' \<and>
   outcome (readJson long_env long_path (Boolean True)) = Inr (Value [(''a'', JSONNumber 1)]) \<and>
   outcome (readJson long_env long_path Undefined) =
     Inr (Promise (Fulfilled [(''a'', JSONNumber 1)])) \<and>
   outcome (readJson (long_env\<lparr>readFileSync := (readFileSync long_env)
                                   (slice (- 32) long_path := Inl ReadFailure),
                                 readFile := (readFile long_env)
                                   (slice (- 32) long_path := Rejected ReadFailure)\<rparr>)
              long_path (Boolean True)) = Inr (Value [(''a'', JSONNumber 1)]) \<and>
   filter is_read (calls (readJson long_env long_path (Boolean True))) = [ReadFileSync long_path] \<and>
   filter is_read (calls (readJson long_env long_path Undefined)) = [ReadFile long_path]"
proof -
  have cut: "slice (- 32) long_path = ''/some/directory/with/config.json''"
    by (simp add: slice_def long_path_def)
  have differs: "slice (- 32) long_path \<noteq> long_path"
    by (simp add: slice_def long_path_def)
  have sync_full: "readFileSync long_env long_path = Inr config_text"
    by (simp add: long_env_def node_env_def cut) (simp add: long_path_def)
  have sync_cut: "readFileSync long_env (slice (- 32) long_path) = Inr ''{a:}''"
    by (simp add: long_env_def node_env_def)
  have async_full: "readFile long_env long_path = Fulfilled config_text"
    by (simp add: long_env_def node_env_def cut) (simp add: long_path_def)
  have async_cut: "readFile long_env (slice (- 32) long_path) = Fulfilled ''{a:}''"
    by (simp add: long_env_def node_env_def)
  have parse: "parseJson long_env config_text = Inr [(''a'', JSONNumber 1)]"
    by (simp add: long_env_def node_env_def example_parse_def)
  note sync_call = read_gets_original_path
    [where env = long_env and p = long_path and s = "Boolean True"
       and q = "slice (- 32) long_path" and r = "Inl ReadFailure"
       and r' = "Rejected ReadFailure"]
  note async_call = read_gets_original_path
    [where env = long_env and p = long_path and s = Undefined
       and q = "slice (- 32) long_path" and r = "Inl ReadFailure"
       and r' = "Rejected ReadFailure"]
  from sync_call sync_full parse
  have sync_out: "outcome (readJson long_env long_path (Boolean True)) =
      Inr (Value [(''a'', JSONNumber 1)])"
    by simp
  from async_call async_full parse
  have async_out: "outcome (readJson long_env long_path Undefined) =
      Inr (Promise (Fulfilled [(''a'', JSONNumber 1)]))"
    by simp
  from sync_call differs sync_out
  have frame: "outcome (readJson (long_env\<lparr>readFileSync := (readFileSync long_env)
                                   (slice (- 32) long_path := Inl ReadFailure),
                                 readFile := (readFile long_env)
                                   (slice (- 32) long_path := Rejected ReadFailure)\<rparr>)
              long_path (Boolean True)) = Inr (Value [(''a'', JSONNumber 1)])"
    by simp
  from sync_call have sync_reads:
    "filter is_read (calls (readJson long_env long_path (Boolean True))) = [ReadFileSync long_path]"
    by simp
  from async_call have async_reads:
    "filter is_read (calls (readJson long_env long_path Undefined)) = [ReadFile long_path]"
    by simp
  from cut differs sync_full sync_cut async_full async_cut sync_out async_out frame
    sync_reads async_reads
  show ?thesis by (intro conjI)
qed

text \<open>
  C9. Two calls with the same path and mode, made in two environments in which the file
  at \<open>p\<close> reads the same and the parser is the same (everything else may have changed),
  have equal outcomes: equal values, or equal errors.
\<close>

theorem readJson_deterministic:
  assumes "readFileSync env1 p = readFileSync env2 p"
    and "readFile env1 p = readFile env2 p"
    and "parseJson env1 = parseJson env2"
  shows "outcome (readJson env1 p s) = outcome (readJson env2 p s)"
  using assms
  by (cases "readFile env2 p"; cases "readFileSync env2 p";
      auto simp: readJson_defs split: sum.splits option.splits jsvalue.splits)

theorem readJson_deterministic_witness:
  "readFileSync example_env ''config.json'' = readFileSync later_env ''config.json'' \<and>
   readFile example_env ''config.json'' = readFile later_env ''config.json'' \<and>
   parseJson example_env = parseJson later_env \<and>
   example_env \<noteq> later_env \<and>
   outcome (readJson example_env ''config.json'' (Boolean True)) =
     outcome (readJson later_env ''config.json'' (Boolean True)) \<and>
   outcome (readJson example_env ''config.json'' Undefined) =
     outcome (readJson later_env ''config.json'' Undefined)"
proof -
  have sync_read: "readFileSync example_env ''config.json'' = readFileSync later_env ''config.json''"
    by (simp add: example_defs later_env_def)
  have async_read: "readFile example_env ''config.json'' = readFile later_env ''config.json''"
    by (simp add: example_defs later_env_def)
  have parse: "parseJson example_env = parseJson later_env"
    by (simp add: example_defs later_env_def)
  have "logMethodArgs example_env \<noteq> logMethodArgs later_env"
    by (simp add: example_defs later_env_def)
  then have changed: "example_env \<noteq> later_env"
    by auto
  from readJson_deterministic [OF sync_read async_read parse, of "Boolean True"]
    readJson_deterministic [OF sync_read async_read parse, of Undefined]
    sync_read async_read parse changed
  show ?thesis by simp
qed

text \<open>
  C10. The blocking branch is taken if and only if the second argument is exactly
  \<open>true\<close>. For every other argument (omitted, \<open>false\<close>, or any other value) the call
  is the promise branch: it reads with \<open>readFile\<close> and returns a promise.
\<close>

theorem dispatch_strict_true:
  "(s = Boolean True \<longrightarrow>
      outcome (readJson env p s) = fst (readJson_sync env p) \<and>
      filter (\<lambda>e. \<not> is_log e) (calls (readJson env p s)) = snd (readJson_sync env p)) \<and>
   (s \<noteq> Boolean True \<longrightarrow>
      outcome (readJson env p s) = fst (readJson_async env p) \<and>
      filter (\<lambda>e. \<not> is_log e) (calls (readJson env p s)) = snd (readJson_async env p)) \<and>
   ((\<exists>pr. outcome (readJson env p s) = Inr (Promise pr)) \<longleftrightarrow> s \<noteq> Boolean True) \<and>
   (ReadFileSync p \<in> set (calls (readJson env p s)) \<longleftrightarrow> s = Boolean True) \<and>
   (ReadFile p \<in> set (calls (readJson env p s)) \<longleftrightarrow> s \<noteq> Boolean True)"
  by (cases "readFile env p"; cases "readFileSync env p";
      auto simp: readJson_defs split: sum.splits option.splits jsvalue.splits)

theorem dispatch_strict_true_witness:
  "Other ''true'' \<noteq> (Boolean True :: string jsvalue) \<and>
   outcome (readJson example_env ''config.json'' (Other ''true'')) =
     Inr (Promise (Fulfilled [(''a'', JSONNumber 1)])) \<and>
   outcome (readJson example_env ''config.json'' (Boolean False)) =
     Inr (Promise (Fulfilled [(''a'', JSONNumber 1)])) \<and>
   outcome (readJson example_env ''config.json'' Undefined) =
     Inr (Promise (Fulfilled [(''a'', JSONNumber 1)])) \<and>
   outcome (readJson example_env ''config.json'' (Boolean True)) =
     Inr (Value [(''a'', JSONNumber 1)])"
proof -
  have async: "fst (readJson_async example_env ''config.json'') =
      Inr (Promise (Fulfilled [(''a'', JSONNumber 1)]))"
    by (simp add: readJson_defs example_defs)
  have sync: "fst (readJson_sync example_env ''config.json'') =
      Inr (Value [(''a'', JSONNumber 1)])"
    by (simp add: readJson_defs example_defs)
  from dispatch_strict_true [of "Other ''true''" example_env "''config.json''"]
    dispatch_strict_true [of "Boolean False" example_env "''config.json''"]
    dispatch_strict_true [of Undefined example_env "''config.json''"]
    dispatch_strict_true [of "Boolean True" example_env "''config.json''"]
    async sync
  show ?thesis by simp
qed

end
